theory Spec2Isabelle
  imports Main
begin

section \<open>The OAuth session and token lifecycle of the Canva MCP server\<close>

text \<open>
  A shallow embedding of the authentication core of \<^verbatim>\<open>src/server/server.ts\<close>: the two
  in-memory maps, the authorization URL builder, the two token-endpoint clients, the access
  token check, the forwarding of API requests, the tool-call handler and the OAuth callback.

  Everything the handlers do to the outside is explicit. A handler takes the world (both
  maps, the clock that \<^verbatim>\<open>Date.now()\<close> reads, and the list of requests sent so far) and
  returns its result with the new world. What the outside does during one handler run is the
  handler's environment: the answers of the token endpoint and of the Canva API, the time a
  request takes, and the values the random source and the hash function of the
  \<^verbatim>\<open>crypto\<close> library return. One handler runs at a time.
\<close>

subsection \<open>Strings: decimal numbers, joining, form encoding\<close>

definition digit_char :: "nat \<Rightarrow> char" where
  "digit_char n = char_of (48 + n)"

fun show_nat :: "nat \<Rightarrow> string" where
  "show_nat n = (if n < 10 then [digit_char n] else show_nat (n div 10) @ [digit_char (n mod 10)])"

declare show_nat.simps [simp del]

fun join :: "string \<Rightarrow> string list \<Rightarrow> string" where
  "join sep [] = []"
| "join sep [x] = x"
| "join sep (x # y # ys) = x @ sep @ join sep (y # ys)"

definition hex_char :: "nat \<Rightarrow> char" where
  "hex_char n = (if n < 10 then char_of (48 + n) else char_of (55 + n))"

text \<open>
  \<^verbatim>\<open>URLSearchParams.toString()\<close> is the application/x-www-form-urlencoded serializer: ASCII
  letters, digits and \<^verbatim>\<open>* - . _\<close> stay, a space becomes \<^verbatim>\<open>+\<close>, every other byte becomes
  \<^verbatim>\<open>%XX\<close> in upper-case hexadecimal; pairs are written \<^verbatim>\<open>name=value\<close> and joined by \<^verbatim>\<open>&\<close>.
  A string is the list of its UTF-8 bytes.
\<close>

definition form_safe :: "char \<Rightarrow> bool" where
  "form_safe c =
     (let n = (of_char c :: nat)
      in (48 \<le> n \<and> n \<le> 57) \<or> (65 \<le> n \<and> n \<le> 90) \<or> (97 \<le> n \<and> n \<le> 122)
         \<or> c = CHR ''*'' \<or> c = CHR ''-'' \<or> c = CHR ''.'' \<or> c = CHR ''_'')"

definition form_encode_char :: "char \<Rightarrow> string" where
  "form_encode_char c =
     (if c = CHR '' '' then ''+''
      else if form_safe c then [c]
      else [CHR ''%'', hex_char ((of_char c :: nat) div 16), hex_char ((of_char c :: nat) mod 16)])"

definition form_encode :: "string \<Rightarrow> string" where
  "form_encode s = concat (map form_encode_char s)"

definition URLSearchParams_toString :: "(string \<times> string) list \<Rightarrow> string" where
  "URLSearchParams_toString ps =
     join ''&'' (map (\<lambda>(k, v). form_encode k @ ''='' @ form_encode v) ps)"

subsection \<open>Configuration\<close>

record config =
  CANVA_CLIENT_ID :: string
  CANVA_CLIENT_SECRET :: string
  CANVA_REDIRECT_URI :: string

text \<open>\<^verbatim>\<open>process.env.X || d\<close>: an unset or empty variable gives the default.\<close>

definition env_or :: "string option \<Rightarrow> string \<Rightarrow> string" where
  "env_or v d = (case v of None \<Rightarrow> d | Some s \<Rightarrow> (if s = [] then d else s))"

definition load_config :: "(string \<rightharpoonup> string) \<Rightarrow> config" where
  "load_config process_env =
     \<lparr>CANVA_CLIENT_ID = env_or (process_env ''CANVA_CLIENT_ID'') [],
      CANVA_CLIENT_SECRET = env_or (process_env ''CANVA_CLIENT_SECRET'') [],
      CANVA_REDIRECT_URI =
        env_or (process_env ''CANVA_REDIRECT_URI'') ''http://0.0.0.0:8001/auth/callback''\<rparr>"

definition CANVA_API_BASE :: string where
  "CANVA_API_BASE = ''https://api.canva.com/rest/v1''"

definition TOKEN_URL :: string where
  "TOKEN_URL = ''https://api.canva.com/rest/v1/oauth/token''"

subsection \<open>The two stores, requests, responses and errors\<close>

text \<open>
  A stored refresh token is whatever the exchange response carried in \<^verbatim>\<open>refresh_token\<close>;
  TypeScript's annotation \<^verbatim>\<open>string\<close> is not checked at run time, so a response without the
  field stores \<^verbatim>\<open>undefined\<close>, here \<open>None\<close>.
\<close>

record session =
  accessToken :: string
  refreshToken :: "string option"
  expiresAt :: int

record pending_auth =
  sessionId :: string
  createdAt :: int
  codeVerifier :: string

record http_request =
  url :: string
  http_method :: string
  headers :: "(string \<times> string) list"
  body :: "string option"

text \<open>
  A response: status line, the body as \<^verbatim>\<open>response.text()\<close> gives it, and the value
  \<^verbatim>\<open>response.json()\<close> resolves to (\<open>None\<close> when the body is not JSON and \<^verbatim>\<open>json()\<close>
  rejects). \<^verbatim>\<open>fetch\<close> itself rejects when the request cannot be made.
\<close>

record 'j response =
  status :: nat
  statusText :: string
  body_text :: string
  body_json :: "'j option"

datatype 'j fetch_result = Rejected string | Resolved "'j response"

definition ok :: "'j response \<Rightarrow> bool" where
  "ok r = (200 \<le> status r \<and> status r \<le> 299)"

text \<open>The JSON of the token endpoint; the provider may leave \<^verbatim>\<open>refresh_token\<close> out.\<close>

record token_data =
  access_token :: string
  refresh_token :: "string option"
  expires_in :: int

text \<open>
  What is thrown: \<^verbatim>\<open>new Error(m)\<close> with its message; the rejection of \<^verbatim>\<open>fetch\<close> with its
  message; the rejection of \<^verbatim>\<open>response.json()\<close>; the error of a zod parser, with the name of
  the field it refused.
\<close>

datatype error =
    Error string
  | FetchFailed string
  | JsonSyntaxError
  | ZodError string

record world =
  authSessions :: "string \<rightharpoonup> session"
  pendingAuthStates :: "string \<rightharpoonup> pending_auth"
  clock :: int
  outbox :: "http_request list"

record 'j env =
  token_endpoint :: "http_request \<Rightarrow> token_data fetch_result"
  api_endpoint :: "http_request \<Rightarrow> 'j fetch_result"
  latency :: nat
  random_hex16 :: string
  random_base64url32 :: string
  sha256_base64url :: "string \<Rightarrow> string"

text \<open>
  An awaited \<^verbatim>\<open>fetch\<close>: the request is recorded, the clock moves on by the latency, the
  endpoint's answer comes back.
\<close>

definition sent :: "http_request \<Rightarrow> nat \<Rightarrow> world \<Rightarrow> world" where
  "sent rq ms w = w\<lparr>clock := clock w + int ms, outbox := outbox w @ [rq]\<rparr>"

definition fetch_token :: "'j env \<Rightarrow> http_request \<Rightarrow> world \<Rightarrow> token_data fetch_result \<times> world" where
  "fetch_token e rq w = (token_endpoint e rq, sent rq (latency e) w)"

definition fetch_api :: "'j env \<Rightarrow> http_request \<Rightarrow> world \<Rightarrow> 'j fetch_result \<times> world" where
  "fetch_api e rq w = (api_endpoint e rq, sent rq (latency e) w)"

subsection \<open>OAuth helpers with PKCE\<close>

definition generateCodeVerifier :: "'j env \<Rightarrow> string" where
  "generateCodeVerifier e = random_base64url32 e"

definition generateCodeChallenge :: "'j env \<Rightarrow> string \<Rightarrow> string" where
  "generateCodeChallenge e verifier = sha256_base64url e verifier"

definition scopes :: "string list" where
  "scopes =
     [''asset:read'', ''asset:write'', ''comment:read'', ''comment:write'',
      ''design:content:read'', ''design:content:write'', ''design:meta:read'',
      ''folder:read'', ''folder:write'', ''profile:read'']"

definition generateAuthUrl :: "'j env \<Rightarrow> config \<Rightarrow> string \<Rightarrow> string \<Rightarrow> string" where
  "generateAuthUrl e cfg st verifier =
     (let codeChallenge = generateCodeChallenge e verifier;
          params =
            [(''client_id'', CANVA_CLIENT_ID cfg),
             (''response_type'', ''code''),
             (''redirect_uri'', CANVA_REDIRECT_URI cfg),
             (''state'', st),
             (''scope'', join '' '' scopes),
             (''code_challenge'', codeChallenge),
             (''code_challenge_method'', ''S256'')]
      in ''https://www.canva.com/api/oauth/authorize?'' @ URLSearchParams_toString params)"


subsection \<open>The token endpoint clients\<close>

definition json :: "'j response \<Rightarrow> error + 'j" where
  "json r = (case body_json r of None \<Rightarrow> Inl JsonSyntaxError | Some j \<Rightarrow> Inr j)"

definition exchange_request :: "config \<Rightarrow> string \<Rightarrow> string \<Rightarrow> http_request" where
  "exchange_request cfg code verifier =
     \<lparr>url = TOKEN_URL,
      http_method = ''POST'',
      headers = [(''Content-Type'', ''application/x-www-form-urlencoded'')],
      body = Some (URLSearchParams_toString
        [(''grant_type'', ''authorization_code''),
         (''code'', code),
         (''redirect_uri'', CANVA_REDIRECT_URI cfg),
         (''code_verifier'', verifier),
         (''client_id'', CANVA_CLIENT_ID cfg),
         (''client_secret'', CANVA_CLIENT_SECRET cfg)])\<rparr>"

definition exchangeCodeForToken ::
  "'j env \<Rightarrow> config \<Rightarrow> string \<Rightarrow> string \<Rightarrow> world \<Rightarrow> (error + token_data) \<times> world" where
  "exchangeCodeForToken e cfg code verifier w =
     (case fetch_token e (exchange_request cfg code verifier) w of
        (Rejected m, w') \<Rightarrow> (Inl (FetchFailed m), w')
      | (Resolved response, w') \<Rightarrow>
          (if \<not> ok response
           then (Inl (Error (''Failed to exchange code for token: '' @ statusText response
                               @ '' - '' @ body_text response)), w')
           else (json response, w')))"

text \<open>A stored \<^verbatim>\<open>undefined\<close> is sent as the string \<^verbatim>\<open>undefined\<close>.\<close>

definition refresh_request :: "config \<Rightarrow> string option \<Rightarrow> http_request" where
  "refresh_request cfg rt =
     \<lparr>url = TOKEN_URL,
      http_method = ''POST'',
      headers = [(''Content-Type'', ''application/x-www-form-urlencoded'')],
      body = Some (URLSearchParams_toString
        [(''grant_type'', ''refresh_token''),
         (''refresh_token'', (case rt of None \<Rightarrow> ''undefined'' | Some t \<Rightarrow> t)),
         (''client_id'', CANVA_CLIENT_ID cfg),
         (''client_secret'', CANVA_CLIENT_SECRET cfg)])\<rparr>"

definition refreshAccessToken ::
  "'j env \<Rightarrow> config \<Rightarrow> string option \<Rightarrow> world \<Rightarrow> (error + token_data) \<times> world" where
  "refreshAccessToken e cfg rt w =
     (case fetch_token e (refresh_request cfg rt) w of
        (Rejected m, w') \<Rightarrow> (Inl (FetchFailed m), w')
      | (Resolved response, w') \<Rightarrow>
          (if \<not> ok response
           then (Inl (Error (''Failed to refresh token: '' @ statusText response
                               @ '' - '' @ body_text response)), w')
           else (json response, w')))"

subsection \<open>The access token check and the forwarded request\<close>

definition getValidAccessToken ::
  "'j env \<Rightarrow> config \<Rightarrow> string \<Rightarrow> world \<Rightarrow> (error + string) \<times> world" where
  "getValidAccessToken e cfg sid w =
     (case authSessions w sid of
        None \<Rightarrow> (Inl (Error ''Not authenticated. Please authenticate with Canva first.''), w)
      | Some s \<Rightarrow>
          (if clock w \<ge> expiresAt s - 5 * 60 * 1000
           then (case refreshAccessToken e cfg (refreshToken s) w of
                   (Inl err, w') \<Rightarrow> (Inl err, w')
                 | (Inr tokenData, w') \<Rightarrow>
                     (let s' = s\<lparr>accessToken := access_token tokenData,
                                  expiresAt := clock w' + expires_in tokenData * 1000\<rparr>
                      in (Inr (accessToken s'),
                          w'\<lparr>authSessions := (authSessions w')(sid \<mapsto> s')\<rparr>)))
           else (Inr (accessToken s), w)))"

text \<open>
  The body of a forwarded request is carried as \<^verbatim>\<open>JSON.stringify\<close> writes it; \<open>None\<close> is
  no body. The result \<open>None\<close> is JavaScript's \<^verbatim>\<open>null\<close>.
\<close>

definition api_request :: "string \<Rightarrow> string \<Rightarrow> string \<Rightarrow> string option \<Rightarrow> http_request" where
  "api_request tok endpoint meth bdy =
     \<lparr>url = CANVA_API_BASE @ endpoint,
      http_method = meth,
      headers = (''Authorization'', ''Bearer '' @ tok)
                # (if bdy \<noteq> None \<and> meth \<noteq> ''GET''
                   then [(''Content-Type'', ''application/json'')] else []),
      body = bdy\<rparr>"

definition canvaApiRequest ::
  "'j env \<Rightarrow> config \<Rightarrow> string \<Rightarrow> string \<Rightarrow> string \<Rightarrow> string option \<Rightarrow> world
     \<Rightarrow> (error + 'j option) \<times> world" where
  "canvaApiRequest e cfg sid endpoint meth bdy w =
     (case getValidAccessToken e cfg sid w of
        (Inl err, w1) \<Rightarrow> (Inl err, w1)
      | (Inr tok, w1) \<Rightarrow>
          (case fetch_api e (api_request tok endpoint meth bdy) w1 of
             (Rejected m, w2) \<Rightarrow> (Inl (FetchFailed m), w2)
           | (Resolved response, w2) \<Rightarrow>
               (if \<not> ok response
                then (Inl (Error (''Canva API error: '' @ show_nat (status response)
                                    @ '' '' @ body_text response)), w2)
                else if status response = 204 then (Inr None, w2)
                else (case json response of
                        Inl err \<Rightarrow> (Inl err, w2)
                      | Inr j \<Rightarrow> (Inr (Some j), w2)))))"

subsection \<open>The tool-call handler\<close>

text \<open>
  After the authentication check the handler switches on the tool name. Each of its twenty
  cases parses the arguments, makes one \<^verbatim>\<open>canvaApiRequest\<close> and builds the result from the
  data; an unknown name throws. The handler is modelled over the table of cases: a case is
  what it asks of the API for given arguments (or the parser's error) and what it answers.
  Two cases are written out below.
\<close>

record 'j tool_result =
  content_text :: string
  structuredContent :: "'j option"

record api_call =
  endpoint :: string
  call_method :: string
  call_body :: "string option"

record ('a, 'j) tool =
  prepare :: "'a \<Rightarrow> error + api_call"
  answer :: "'a \<Rightarrow> 'j option \<Rightarrow> error + 'j tool_result"

definition auth_prompt :: "string \<Rightarrow> 'j tool_result" where
  "auth_prompt authUrl =
     \<lparr>content_text = ''Please authenticate with Canva to use this feature. Visit: '' @ authUrl,
      structuredContent = None\<rparr>"

definition call_tool ::
  "'j env \<Rightarrow> config \<Rightarrow> (string \<rightharpoonup> ('a, 'j) tool) \<Rightarrow> string \<Rightarrow> string \<Rightarrow> 'a \<Rightarrow> world
     \<Rightarrow> (error + 'j tool_result) \<times> world" where
  "call_tool e cfg tools sid toolName args w =
     (if authSessions w sid = None
      then (let st = random_hex16 e;
                verifier = generateCodeVerifier e;
                w' = w\<lparr>pendingAuthStates := (pendingAuthStates w)
                        (st \<mapsto> \<lparr>sessionId = sid, createdAt = clock w, codeVerifier = verifier\<rparr>)\<rparr>;
                authUrl = generateAuthUrl e cfg st verifier
            in (Inr (auth_prompt authUrl), w'))
      else (case tools toolName of
              None \<Rightarrow> (Inl (Error (''Unknown tool: '' @ toolName)), w)
            | Some t \<Rightarrow>
                (case prepare t args of
                   Inl err \<Rightarrow> (Inl err, w)
                 | Inr c \<Rightarrow>
                     (case canvaApiRequest e cfg sid (endpoint c) (call_method c) (call_body c) w of
                        (Inl err, w') \<Rightarrow> (Inl err, w')
                      | (Inr data, w') \<Rightarrow> (answer t args data, w')))))"

text \<open>
  The cases \<^verbatim>\<open>commit-editing-transaction\<close> and \<^verbatim>\<open>cancel-editing-transaction\<close>. Their
  arguments are an object whose \<^verbatim>\<open>transactionId\<close> must be a string; the object is the map
  of its string fields.
\<close>

definition parse_transactionId :: "(string \<rightharpoonup> string) \<Rightarrow> error + string" where
  "parse_transactionId args =
     (case args ''transactionId'' of
        None \<Rightarrow> Inl (ZodError ''transactionId'')
      | Some t \<Rightarrow> Inr t)"

definition commit_editing_transaction :: "(string \<rightharpoonup> string, 'j) tool" where
  "commit_editing_transaction =
     \<lparr>prepare = (\<lambda>args. case parse_transactionId args of
                   Inl err \<Rightarrow> Inl err
                 | Inr t \<Rightarrow> Inr \<lparr>endpoint = ''/designs/edit/'' @ t @ ''/commit'',
                                 call_method = ''POST'', call_body = None\<rparr>),
      answer = (\<lambda>args data. Inr \<lparr>content_text = ''Successfully committed changes to design.'',
                                  structuredContent = None\<rparr>)\<rparr>"

definition cancel_editing_transaction :: "(string \<rightharpoonup> string, 'j) tool" where
  "cancel_editing_transaction =
     \<lparr>prepare = (\<lambda>args. case parse_transactionId args of
                   Inl err \<Rightarrow> Inl err
                 | Inr t \<Rightarrow> Inr \<lparr>endpoint = ''/designs/edit/'' @ t @ ''/cancel'',
                                 call_method = ''POST'', call_body = None\<rparr>),
      answer = (\<lambda>args data. Inr \<lparr>content_text = ''Successfully cancelled editing transaction.'',
                                  structuredContent = None\<rparr>)\<rparr>"

definition editing_tools :: "string \<rightharpoonup> (string \<rightharpoonup> string, 'j) tool" where
  "editing_tools =
     [''commit-editing-transaction'' \<mapsto> commit_editing_transaction,
      ''cancel-editing-transaction'' \<mapsto> cancel_editing_transaction]"

subsection \<open>The OAuth callback\<close>

text \<open>
  The query parameters as \<^verbatim>\<open>url.searchParams.get\<close> returns them (\<open>None\<close> is \<^verbatim>\<open>null\<close>). The
  reply is its status code and which of the handler's pages it carries: a plain text, the
  page for the provider's \<^verbatim>\<open>error\<close> parameter, the page of success, or the page that shows
  the message of the error caught.
\<close>

record callback_query =
  q_code :: "string option"
  q_state :: "string option"
  q_error :: "string option"

datatype page =
    PlainText string
  | AuthenticationFailedPage string
  | ConnectedPage
  | AuthenticationErrorPage error

datatype reply = Reply nat page

text \<open>JavaScript truthiness of \<^verbatim>\<open>string | null\<close>: \<^verbatim>\<open>null\<close> and the empty string are falsy.\<close>

definition truthy :: "string option \<Rightarrow> string option" where
  "truthy v = (case v of None \<Rightarrow> None | Some s \<Rightarrow> (if s = [] then None else Some s))"

text \<open>The loop over the entries that deletes every state older than ten minutes.\<close>

definition cleanup :: "int \<Rightarrow> (string \<rightharpoonup> pending_auth) \<Rightarrow> (string \<rightharpoonup> pending_auth)" where
  "cleanup now m =
     (\<lambda>k. case m k of
             None \<Rightarrow> None
           | Some v \<Rightarrow> (if now - createdAt v > 10 * 60 * 1000 then None else Some v))"

definition handleAuthCallback ::
  "'j env \<Rightarrow> config \<Rightarrow> callback_query \<Rightarrow> world \<Rightarrow> reply \<times> world" where
  "handleAuthCallback e cfg q w =
     (case truthy (q_error q) of
        Some err \<Rightarrow> (Reply 400 (AuthenticationFailedPage err), w)
      | None \<Rightarrow>
          (case (truthy (q_code q), truthy (q_state q)) of
             (Some code, Some st) \<Rightarrow>
               (case pendingAuthStates w st of
                  None \<Rightarrow> (Reply 400 (PlainText ''Invalid or expired state parameter''), w)
                | Some pendingAuth \<Rightarrow>
                    (let now = clock w;
                         w1 = w\<lparr>pendingAuthStates := cleanup now (pendingAuthStates w)\<rparr>
                     in (case exchangeCodeForToken e cfg code (codeVerifier pendingAuth) w1 of
                           (Inr tokenData, w2) \<Rightarrow>
                             (Reply 200 ConnectedPage,
                              w2\<lparr>authSessions := (authSessions w2)
                                    (sessionId pendingAuth \<mapsto>
                                       \<lparr>accessToken = access_token tokenData,
                                        refreshToken = refresh_token tokenData,
                                        expiresAt = clock w2 + expires_in tokenData * 1000\<rparr>),
                                  pendingAuthStates := (pendingAuthStates w2)(st := None)\<rparr>)
                         | (Inl err, w2) \<Rightarrow>
                             (Reply 500 (AuthenticationErrorPage err), w2))))
           | _ \<Rightarrow> (Reply 400 (PlainText ''Missing code or state parameter''), w)))"

subsection \<open>Sample configurations, environments and worlds\<close>

text \<open>
  Concrete inputs on which the theorems below are run: a session identifier and a state token
  as \<^verbatim>\<open>crypto.randomBytes(16).toString("hex")\<close> gives them, a code verifier as
  \<^verbatim>\<open>crypto.randomBytes(32).toString("base64url")\<close> gives it (for the bytes 0 to 31), its
  SHA-256 digest in base64url, and times in milliseconds since the epoch, written as an
  offset from \<open>demo_time\<close>.
\<close>

definition demo_session :: string where
  "demo_session = ''a0a1a2a3a4a5a6a7a8a9aaabacadaeaf''"

definition demo_state :: string where
  "demo_state = ''101112131415161718191a1b1c1d1e1f''"

definition demo_verifier :: string where
  "demo_verifier = ''AAECAwQFBgcICQoLDA0ODxAREhMUFRYXGBkaGxwdHh8''"

definition demo_challenge :: string where
  "demo_challenge = ''6oZqdX5MOLq_qBJ8vppAnT4fk6AP8UiP9zX8-Rev_9A''"

definition demo_time :: int where
  "demo_time = 1700000000000"

definition at_ms :: "int \<Rightarrow> int" where
  [simp]: "at_ms ms = demo_time + ms"

definition demo_cfg :: config where
  "demo_cfg = load_config [''CANVA_CLIENT_ID'' \<mapsto> ''cid'', ''CANVA_CLIENT_SECRET'' \<mapsto> ''sec'']"

definition granted :: "token_data response" where
  "granted =
     \<lparr>status = 200, statusText = ''OK'', body_text = [],
      body_json = Some \<lparr>access_token = ''A'', refresh_token = Some ''R'', expires_in = 3600\<rparr>\<rparr>"

definition renewed :: "token_data response" where
  "renewed =
     \<lparr>status = 200, statusText = ''OK'', body_text = [],
      body_json = Some \<lparr>access_token = ''A2'', refresh_token = None, expires_in = 3600\<rparr>\<rparr>"

definition refused :: "token_data response" where
  "refused =
     \<lparr>status = 400, statusText = ''Bad Request'', body_text = ''invalid_grant'',
      body_json = None\<rparr>"

definition no_content :: "unit response" where
  "no_content = \<lparr>status = 204, statusText = ''No Content'', body_text = [], body_json = None\<rparr>"

definition not_found :: "unit response" where
  "not_found = \<lparr>status = 404, statusText = ''Not Found'', body_text = ''gone'', body_json = None\<rparr>"

text \<open>
  An environment: the token endpoint answers \<open>t\<close>, the API answers \<open>a\<close>, a request takes
  50 ms, the random source gives the state and the verifier above, and the hash function
  gives the digest of that verifier.
\<close>

definition demo_env :: "token_data response \<Rightarrow> unit response \<Rightarrow> unit env" where
  "demo_env t a =
     \<lparr>token_endpoint = (\<lambda>rq. Resolved t),
      api_endpoint = (\<lambda>rq. Resolved a),
      latency = 50,
      random_hex16 = demo_state,
      random_base64url32 = demo_verifier,
      sha256_base64url = (\<lambda>v. demo_challenge)\<rparr>"

definition demo_world ::
  "(string \<rightharpoonup> session) \<Rightarrow> (string \<rightharpoonup> pending_auth) \<Rightarrow> int \<Rightarrow> world" where
  "demo_world ss ps now =
     \<lparr>authSessions = ss, pendingAuthStates = ps, clock = now, outbox = []\<rparr>"

definition demo_pending :: pending_auth where
  "demo_pending =
     \<lparr>sessionId = demo_session, createdAt = at_ms 0, codeVerifier = demo_verifier\<rparr>"

definition pending_one :: "string \<rightharpoonup> pending_auth" where
  "pending_one = [demo_state \<mapsto> demo_pending]"

definition session_of :: "int \<Rightarrow> (string \<rightharpoonup> session)" where
  "session_of expiry =
     [demo_session \<mapsto>
        \<lparr>accessToken = ''A0'', refreshToken = Some ''R0'', expiresAt = expiry\<rparr>]"

definition callback_one :: callback_query where
  "callback_one = \<lparr>q_code = Some ''c'', q_state = Some demo_state, q_error = None\<rparr>"

section \<open>Properties of the handlers\<close>

subsection \<open>What a fetch leaves behind\<close>

lemma sent_fields [simp]:
  "authSessions (sent rq ms w) = authSessions w"
  "pendingAuthStates (sent rq ms w) = pendingAuthStates w"
  "clock (sent rq ms w) = clock w + int ms"
  "outbox (sent rq ms w) = outbox w @ [rq]"
  by (simp_all add: sent_def)

lemma exchange_world:
  "snd (exchangeCodeForToken e cfg code v w) = sent (exchange_request cfg code v) (latency e) w"
  by (simp add: exchangeCodeForToken_def fetch_token_def split: fetch_result.splits)

lemma exchange_result_any_world:
  "fst (exchangeCodeForToken e cfg code v w) = fst (exchangeCodeForToken e cfg code v w')"
  by (simp add: exchangeCodeForToken_def fetch_token_def split: fetch_result.splits)

lemma refresh_world:
  "snd (refreshAccessToken e cfg rt w) = sent (refresh_request cfg rt) (latency e) w"
  by (simp add: refreshAccessToken_def fetch_token_def split: fetch_result.splits)

lemma exchange_cases:
  "exchangeCodeForToken e cfg code v w =
     (fst (exchangeCodeForToken e cfg code v w), sent (exchange_request cfg code v) (latency e) w)"
  by (metis exchange_world prod.collapse)

lemma refresh_cases:
  "refreshAccessToken e cfg rt w =
     (fst (refreshAccessToken e cfg rt w), sent (refresh_request cfg rt) (latency e) w)"
  by (metis refresh_world prod.collapse)

lemma refresh_succeeds:
  assumes "token_endpoint e (refresh_request cfg rt) = Resolved r" and "ok r"
    and "body_json r = Some td"
  shows "fst (refreshAccessToken e cfg rt w) = Inr td"
  using assms by (simp add: refreshAccessToken_def fetch_token_def json_def)

lemma exchange_succeeds:
  assumes "token_endpoint e (exchange_request cfg code v) = Resolved r" and "ok r"
    and "body_json r = Some td"
  shows "fst (exchangeCodeForToken e cfg code v w) = Inr td"
  using assms by (simp add: exchangeCodeForToken_def fetch_token_def json_def)

subsection \<open>The access token check\<close>

lemma token_pass:
  assumes "authSessions w sid = Some s" and "\<not> clock w \<ge> expiresAt s - 5 * 60 * 1000"
  shows "getValidAccessToken e cfg sid w = (Inr (accessToken s), w)"
  using assms by (simp add: getValidAccessToken_def)

lemma token_refresh_failed:
  assumes "authSessions w sid = Some s" and "clock w \<ge> expiresAt s - 5 * 60 * 1000"
    and "fst (refreshAccessToken e cfg (refreshToken s) w) = Inl err"
  shows "getValidAccessToken e cfg sid w =
           (Inl err, sent (refresh_request cfg (refreshToken s)) (latency e) w)"
proof -
  have "refreshAccessToken e cfg (refreshToken s) w =
          (Inl err, sent (refresh_request cfg (refreshToken s)) (latency e) w)"
    using assms(3) refresh_cases [of e cfg "refreshToken s" w] by simp
  then show ?thesis using assms(1,2) by (simp add: getValidAccessToken_def)
qed

lemma token_refreshed:
  assumes "authSessions w sid = Some s" and "clock w \<ge> expiresAt s - 5 * 60 * 1000"
    and "fst (refreshAccessToken e cfg (refreshToken s) w) = Inr td"
  shows "getValidAccessToken e cfg sid w =
           (Inr (access_token td),
            (sent (refresh_request cfg (refreshToken s)) (latency e) w)
              \<lparr>authSessions := (authSessions w)
                 (sid \<mapsto> s\<lparr>accessToken := access_token td,
                             expiresAt := clock w + int (latency e) + expires_in td * 1000\<rparr>)\<rparr>)"
proof -
  have "refreshAccessToken e cfg (refreshToken s) w =
          (Inr td, sent (refresh_request cfg (refreshToken s)) (latency e) w)"
    using assms(3) refresh_cases [of e cfg "refreshToken s" w] by simp
  then show ?thesis using assms(1,2) by (simp add: getValidAccessToken_def Let_def)
qed

lemma token_token_is_current:
  assumes "getValidAccessToken e cfg sid w = (Inr tok, w1)"
  shows "map_option accessToken (authSessions w1 sid) = Some tok"
  using assms
  by (auto simp: getValidAccessToken_def Let_def split: option.splits if_splits prod.splits sum.splits)

subsection \<open>The forwarded request and the tool call\<close>

lemma api_request_sent:
  assumes "getValidAccessToken e cfg sid w = (Inr tok, w1)"
  shows "snd (canvaApiRequest e cfg sid ep meth bdy w)
           = sent (api_request tok ep meth bdy) (latency e) w1"
  using assms
  by (simp add: canvaApiRequest_def fetch_api_def split: fetch_result.splits sum.splits)

lemma api_request_not_ok:
  assumes "getValidAccessToken e cfg sid w = (Inr tok, w1)"
    and "api_endpoint e (api_request tok ep meth bdy) = Resolved r"
    and "\<not> (200 \<le> status r \<and> status r \<le> 299)"
  shows "fst (canvaApiRequest e cfg sid ep meth bdy w)
           = Inl (Error (''Canva API error: '' @ show_nat (status r) @ '' '' @ body_text r))"
  using assms by (simp add: canvaApiRequest_def fetch_api_def ok_def)

lemma api_request_no_content:
  assumes "getValidAccessToken e cfg sid w = (Inr tok, w1)"
    and "api_endpoint e (api_request tok ep meth bdy) = Resolved r"
    and "status r = 204"
  shows "fst (canvaApiRequest e cfg sid ep meth bdy w) = Inr None"
  using assms by (simp add: canvaApiRequest_def fetch_api_def ok_def)

lemma forwarded_after_refresh_check:
  assumes "authSessions w sid = Some s" and "clock w \<ge> expiresAt s - 5 * 60 * 1000"
  shows "take (Suc (length (outbox w))) (outbox (snd (canvaApiRequest e cfg sid ep meth bdy w)))
           = outbox w @ [refresh_request cfg (refreshToken s)]
         \<and> pendingAuthStates (snd (canvaApiRequest e cfg sid ep meth bdy w))
           = pendingAuthStates w"
proof (cases "fst (refreshAccessToken e cfg (refreshToken s) w)")
  case (Inl err)
  show ?thesis
    using token_refresh_failed [OF assms Inl] by (simp add: canvaApiRequest_def)
next
  case (Inr td)
  show ?thesis
    using api_request_sent [OF token_refreshed [OF assms Inr], of ep meth bdy] by simp
qed

lemma call_tool_known:
  assumes "authSessions w sid = Some s" and "tools toolName = Some t"
    and "prepare t args = Inr c"
  shows "snd (call_tool e cfg tools sid toolName args w)
           = snd (canvaApiRequest e cfg sid (endpoint c) (call_method c) (call_body c) w)"
    and "\<And>err. fst (canvaApiRequest e cfg sid (endpoint c) (call_method c) (call_body c) w) = Inl err
           \<Longrightarrow> fst (call_tool e cfg tools sid toolName args w) = Inl err"
  using assms by (auto simp: call_tool_def split: prod.splits sum.splits)

lemma form_encode_parameter_names:
  "form_encode ''client_id'' = ''client_id''"
  "form_encode ''response_type'' = ''response_type''"
  "form_encode ''code'' = ''code''"
  "form_encode ''redirect_uri'' = ''redirect_uri''"
  "form_encode ''state'' = ''state''"
  "form_encode ''scope'' = ''scope''"
  "form_encode ''code_challenge'' = ''code_challenge''"
  "form_encode ''code_challenge_method'' = ''code_challenge_method''"
  "form_encode ''S256'' = ''S256''"
  by (simp_all add: form_encode_def form_encode_char_def form_safe_def)

lemma form_encode_scopes:
  "form_encode (join '' '' scopes)
     = ''asset%3Aread+asset%3Awrite+comment%3Aread+comment%3Awrite''
       @ ''+design%3Acontent%3Aread+design%3Acontent%3Awrite+design%3Ameta%3Aread''
       @ ''+folder%3Aread+folder%3Awrite+profile%3Aread''"
  by code_simp

lemma auth_url_spelled_out:
  "generateAuthUrl e cfg st v
     = ''https://www.canva.com/api/oauth/authorize?client_id='' @ form_encode (CANVA_CLIENT_ID cfg)
       @ ''&response_type=code&redirect_uri='' @ form_encode (CANVA_REDIRECT_URI cfg)
       @ ''&state='' @ form_encode st
       @ ''&scope=asset%3Aread+asset%3Awrite+comment%3Aread+comment%3Awrite''
       @ ''+design%3Acontent%3Aread+design%3Acontent%3Awrite+design%3Ameta%3Aread''
       @ ''+folder%3Aread+folder%3Awrite+profile%3Aread''
       @ ''&code_challenge='' @ form_encode (sha256_base64url e v)
       @ ''&code_challenge_method=S256''"
  unfolding generateAuthUrl_def Let_def URLSearchParams_toString_def generateCodeChallenge_def
  by (simp add: form_encode_scopes form_encode_parameter_names)

subsection \<open>The callback\<close>

lemma callback_miss:
  assumes "truthy (q_error q) = None" and "truthy (q_code q) = Some code"
    and "truthy (q_state q) = Some st" and "pendingAuthStates w st = None"
  shows "handleAuthCallback e cfg q w =
           (Reply 400 (PlainText ''Invalid or expired state parameter''), w)"
  using assms by (simp add: handleAuthCallback_def)

lemma callback_connected:
  assumes "truthy (q_error q) = None" and "truthy (q_code q) = Some code"
    and "truthy (q_state q) = Some st" and "pendingAuthStates w st = Some p"
    and "fst (exchangeCodeForToken e cfg code (codeVerifier p) w) = Inr td"
  shows "handleAuthCallback e cfg q w =
           (Reply 200 ConnectedPage,
            \<lparr>authSessions = (authSessions w)
               (sessionId p \<mapsto> \<lparr>accessToken = access_token td, refreshToken = refresh_token td,
                  expiresAt = clock w + int (latency e) + expires_in td * 1000\<rparr>),
             pendingAuthStates = (cleanup (clock w) (pendingAuthStates w))(st := None),
             clock = clock w + int (latency e),
             outbox = outbox w @ [exchange_request cfg code (codeVerifier p)]\<rparr>)"
proof -
  let ?w1 = "w\<lparr>pendingAuthStates := cleanup (clock w) (pendingAuthStates w)\<rparr>"
  have "fst (exchangeCodeForToken e cfg code (codeVerifier p) ?w1) = Inr td"
    using assms(5) exchange_result_any_world [of e cfg code "codeVerifier p" ?w1 w] by simp
  then have "exchangeCodeForToken e cfg code (codeVerifier p) ?w1 =
          (Inr td, sent (exchange_request cfg code (codeVerifier p)) (latency e) ?w1)"
    using exchange_cases [of e cfg code "codeVerifier p" ?w1] by simp
  then show ?thesis using assms(1-4)
    by (simp add: handleAuthCallback_def Let_def sent_def)
qed

lemma callback_exchange_failed:
  assumes "truthy (q_error q) = None" and "truthy (q_code q) = Some code"
    and "truthy (q_state q) = Some st" and "pendingAuthStates w st = Some p"
    and "fst (exchangeCodeForToken e cfg code (codeVerifier p) w) = Inl err"
  shows "handleAuthCallback e cfg q w =
           (Reply 500 (AuthenticationErrorPage err),
            \<lparr>authSessions = authSessions w,
             pendingAuthStates = cleanup (clock w) (pendingAuthStates w),
             clock = clock w + int (latency e),
             outbox = outbox w @ [exchange_request cfg code (codeVerifier p)]\<rparr>)"
proof -
  let ?w1 = "w\<lparr>pendingAuthStates := cleanup (clock w) (pendingAuthStates w)\<rparr>"
  have "fst (exchangeCodeForToken e cfg code (codeVerifier p) ?w1) = Inl err"
    using assms(5) exchange_result_any_world [of e cfg code "codeVerifier p" ?w1 w] by simp
  then have "exchangeCodeForToken e cfg code (codeVerifier p) ?w1 =
          (Inl err, sent (exchange_request cfg code (codeVerifier p)) (latency e) ?w1)"
    using exchange_cases [of e cfg code "codeVerifier p" ?w1] by simp
  then show ?thesis using assms(1-4)
    by (simp add: handleAuthCallback_def Let_def sent_def)
qed

subsection \<open>Unfolding the sample runs\<close>

lemma demo_pending_fields [simp]:
  "sessionId demo_pending = demo_session"
  "createdAt demo_pending = demo_time"
  "codeVerifier demo_pending = demo_verifier"
  by (simp_all add: demo_pending_def)

lemmas demo_defs = demo_session_def demo_state_def demo_verifier_def demo_challenge_def
  demo_cfg_def load_config_def env_or_def demo_env_def demo_world_def
  demo_pending_def pending_one_def session_of_def callback_one_def granted_def renewed_def refused_def
  no_content_def not_found_def

lemmas run_defs = handleAuthCallback_def exchangeCodeForToken_def refreshAccessToken_def
  getValidAccessToken_def canvaApiRequest_def call_tool_def fetch_token_def fetch_api_def
  sent_def truthy_def cleanup_def ok_def json_def Let_def

section \<open>The claims\<close>

subsection \<open>The unauthenticated call\<close>

text \<open>
  C1. For a session identifier with no record in the session token store, a tool call, whatever
  the tool name and the table of cases, returns a result whose text is the authentication
  prompt followed by the authorization URL: the provider's authorize endpoint with the
  configured client id and redirect URI, the response type \<^verbatim>\<open>code\<close>, the state token drawn
  from the random source, the ten scopes joined by a space, the challenge of the fresh code
  verifier and the method \<^verbatim>\<open>S256\<close>, form-encoded in this order. The call sends no request
  (neither to the API nor to the token endpoint) and leaves the session token store and the
  clock as they were; the pending authorizations gain one entry, keyed by the state token of
  the URL, that holds the session, the time of the call and the verifier whose challenge the
  URL carries.
\<close>

theorem unauthenticated_call_begins_authorization:
  assumes "authSessions w sid = None"
  shows "(let st = random_hex16 e;
              verifier = random_base64url32 e;
              authUrl =
                ''https://www.canva.com/api/oauth/authorize?client_id=''
                @ form_encode (CANVA_CLIENT_ID cfg)
                @ ''&response_type=code&redirect_uri='' @ form_encode (CANVA_REDIRECT_URI cfg)
                @ ''&state='' @ form_encode st
                @ ''&scope=asset%3Aread+asset%3Awrite+comment%3Aread+comment%3Awrite''
                @ ''+design%3Acontent%3Aread+design%3Acontent%3Awrite+design%3Ameta%3Aread''
                @ ''+folder%3Aread+folder%3Awrite+profile%3Aread''
                @ ''&code_challenge='' @ form_encode (sha256_base64url e verifier)
                @ ''&code_challenge_method=S256'';
              r = fst (call_tool e cfg tools sid toolName args w);
              w' = snd (call_tool e cfg tools sid toolName args w)
          in r = Inr \<lparr>content_text =
                        ''Please authenticate with Canva to use this feature. Visit: '' @ authUrl,
                      structuredContent = None\<rparr>
             \<and> generateAuthUrl e cfg st verifier = authUrl
             \<and> outbox w' = outbox w
             \<and> authSessions w' = authSessions w
             \<and> clock w' = clock w
             \<and> pendingAuthStates w' = (pendingAuthStates w)
                  (st \<mapsto> \<lparr>sessionId = sid, createdAt = clock w, codeVerifier = verifier\<rparr>))"
  using assms
  by (simp add: call_tool_def Let_def auth_prompt_def generateCodeVerifier_def
      auth_url_spelled_out)

theorem unauthenticated_call_begins_authorization_witness:
  "authSessions (demo_world Map.empty Map.empty (at_ms 1000)) demo_session = None
   \<and> call_tool (demo_env granted no_content) demo_cfg editing_tools demo_session
        ''commit-editing-transaction'' [''transactionId'' \<mapsto> ''t1'']
        (demo_world Map.empty Map.empty (at_ms 1000))
     = (Inr \<lparr>content_text =
               ''Please authenticate with Canva to use this feature. Visit: ''
               @ ''https://www.canva.com/api/oauth/authorize?client_id=cid&response_type=code''
               @ ''&redirect_uri=http%3A%2F%2F0.0.0.0%3A8001%2Fauth%2Fcallback''
               @ ''&state=101112131415161718191a1b1c1d1e1f''
               @ ''&scope=asset%3Aread+asset%3Awrite+comment%3Aread+comment%3Awrite''
               @ ''+design%3Acontent%3Aread+design%3Acontent%3Awrite+design%3Ameta%3Aread''
               @ ''+folder%3Aread+folder%3Awrite+profile%3Aread''
               @ ''&code_challenge=6oZqdX5MOLq_qBJ8vppAnT4fk6AP8UiP9zX8-Rev_9A''
               @ ''&code_challenge_method=S256'',
             structuredContent = None\<rparr>,
        \<lparr>authSessions = Map.empty,
         pendingAuthStates =
           [''101112131415161718191a1b1c1d1e1f'' \<mapsto>
              \<lparr>sessionId = ''a0a1a2a3a4a5a6a7a8a9aaabacadaeaf'', createdAt = at_ms 1000,
               codeVerifier = ''AAECAwQFBgcICQoLDA0ODxAREhMUFRYXGBkaGxwdHh8''\<rparr>],
         clock = at_ms 1000, outbox = []\<rparr>)"
proof -
  let ?w = "demo_world Map.empty Map.empty (at_ms 1000)"
  have none: "authSessions ?w demo_session = None" by (simp add: demo_world_def)
  have enc: "form_encode (CANVA_CLIENT_ID demo_cfg) = ''cid''"
    "form_encode (CANVA_REDIRECT_URI demo_cfg) = ''http%3A%2F%2F0.0.0.0%3A8001%2Fauth%2Fcallback''"
    "form_encode demo_state = ''101112131415161718191a1b1c1d1e1f''"
    "form_encode demo_challenge = ''6oZqdX5MOLq_qBJ8vppAnT4fk6AP8UiP9zX8-Rev_9A''"
    by code_simp+
  have run: "random_hex16 (demo_env granted no_content) = demo_state"
    "random_base64url32 (demo_env granted no_content) = demo_verifier"
    "sha256_base64url (demo_env granted no_content) v = demo_challenge" for v
    by (simp_all add: demo_env_def)
  show ?thesis
    using unauthenticated_call_begins_authorization
      [OF none, of "demo_env granted no_content" demo_cfg editing_tools
         "''commit-editing-transaction''" "[''transactionId'' \<mapsto> ''t1'']"]
      none enc run
    by (simp add: Let_def prod_eq_iff demo_world_def demo_state_def demo_session_def
        demo_verifier_def)
qed

subsection \<open>Expired states\<close>

text \<open>
  C2. A pending authorization older than ten minutes should be treated as not found by the
  callback. The handler looks the state up first and deletes the old entries afterwards, so
  an expired entry that is still in the map is found, and the code is exchanged with its
  verifier. The run: the entry was created at \<open>demo_time\<close>, the callback
  arrives 600001 ms later, the token endpoint grants. The reply is 200, one exchange request
  was sent and the session has its record.
\<close>

theorem expired_state_is_exchanged:
  "clock (demo_world Map.empty pending_one (at_ms 600001))
     - createdAt demo_pending > 10 * 60 * 1000
   \<and> pendingAuthStates (demo_world Map.empty pending_one (at_ms 600001)) demo_state
       = Some demo_pending
   \<and> fst (handleAuthCallback (demo_env granted no_content) demo_cfg callback_one
         (demo_world Map.empty pending_one (at_ms 600001))) = Reply 200 ConnectedPage
   \<and> outbox (snd (handleAuthCallback (demo_env granted no_content) demo_cfg callback_one
         (demo_world Map.empty pending_one (at_ms 600001))))
       = [exchange_request demo_cfg ''c'' demo_verifier]
   \<and> authSessions (snd (handleAuthCallback (demo_env granted no_content) demo_cfg callback_one
         (demo_world Map.empty pending_one (at_ms 600001)))) demo_session
       = Some \<lparr>accessToken = ''A'', refreshToken = Some ''R'', expiresAt = at_ms 4200051\<rparr>"
  by (simp add: run_defs demo_defs)

subsection \<open>Single use of a state\<close>

text \<open>
  C3, as stated, fails: a first callback that finds the entry and whose exchange is refused
  leaves the entry in place (it is deleted only after the record has been stored), and a
  second callback with the same state is accepted.
\<close>

theorem failed_exchange_keeps_state_counterexample:
  "fst (handleAuthCallback (demo_env refused no_content) demo_cfg callback_one
         (demo_world Map.empty pending_one (at_ms 1000)))
     = Reply 500 (AuthenticationErrorPage
         (Error ''Failed to exchange code for token: Bad Request - invalid_grant''))
   \<and> fst (handleAuthCallback (demo_env granted no_content) demo_cfg callback_one
         (snd (handleAuthCallback (demo_env refused no_content) demo_cfg callback_one
            (demo_world Map.empty pending_one (at_ms 1000)))))
     = Reply 200 ConnectedPage"
  by (simp add: run_defs demo_defs)

text \<open>
  C3, amended. After a callback that finds the entry of its state and whose token exchange
  succeeds, the entry is gone, and a second callback presenting the same state is answered
  400 with \<^verbatim>\<open>Invalid or expired state parameter\<close> and changes nothing (in particular it sends
  no exchange request).
\<close>

theorem state_is_single_use_after_success:
  assumes "truthy (q_error q) = None" and "truthy (q_code q) = Some code"
    and "truthy (q_state q) = Some st"
    and "pendingAuthStates w st = Some p"
    and "fst (exchangeCodeForToken e cfg code (codeVerifier p) w) = Inr td"
    and "truthy (q_error q') = None" and "truthy (q_code q') = Some code'"
    and "truthy (q_state q') = Some st"
  shows "fst (handleAuthCallback e cfg q w) = Reply 200 ConnectedPage
         \<and> pendingAuthStates (snd (handleAuthCallback e cfg q w)) st = None
         \<and> handleAuthCallback e' cfg q' (snd (handleAuthCallback e cfg q w))
             = (Reply 400 (PlainText ''Invalid or expired state parameter''),
                snd (handleAuthCallback e cfg q w))"
proof -
  have gone: "pendingAuthStates (snd (handleAuthCallback e cfg q w)) st = None"
    using callback_connected [OF assms(1-5)] by simp
  show ?thesis
    using callback_connected [OF assms(1-5)] gone callback_miss [OF assms(6-8) gone]
    by simp
qed

theorem state_is_single_use_after_success_witness:
  "fst (handleAuthCallback (demo_env granted no_content) demo_cfg callback_one
          (demo_world Map.empty pending_one (at_ms 1000))) = Reply 200 ConnectedPage
   \<and> fst (handleAuthCallback (demo_env granted no_content) demo_cfg callback_one
          (snd (handleAuthCallback (demo_env granted no_content) demo_cfg callback_one
             (demo_world Map.empty pending_one (at_ms 1000)))))
      = Reply 400 (PlainText ''Invalid or expired state parameter'')"
proof -
  have 1: "truthy (q_error callback_one) = None" "truthy (q_code callback_one) = Some ''c''"
    "truthy (q_state callback_one) = Some demo_state"
    by (simp_all add: callback_one_def truthy_def demo_state_def)
  have 2: "pendingAuthStates (demo_world Map.empty pending_one (at_ms 1000)) demo_state
      = Some demo_pending"
    by (simp add: demo_world_def demo_pending_def pending_one_def)
  have 3: "fst (exchangeCodeForToken (demo_env granted no_content) demo_cfg ''c''
             (codeVerifier demo_pending)
             (demo_world Map.empty pending_one (at_ms 1000)))
           = Inr \<lparr>access_token = ''A'', refresh_token = Some ''R'', expires_in = 3600\<rparr>"
    by (simp add: exchangeCodeForToken_def fetch_token_def demo_env_def granted_def ok_def json_def)
  show ?thesis
    using state_is_single_use_after_success [OF 1 2 3 1, of "demo_env granted no_content"]
    by simp
qed

subsection \<open>The refresh buffer\<close>

text \<open>
  C4, as stated, fails at the boundary: the test of \<^verbatim>\<open>getValidAccessToken\<close> is
  \<^verbatim>\<open>Date.now() >= expiresAt - 5 min\<close>, so a record that expires in exactly five minutes is
  refreshed, although
  \<^verbatim>\<open>expiresAt - now >= 5 minutes\<close> holds.
\<close>

theorem refresh_at_exactly_five_minutes_counterexample:
  "map_option expiresAt (authSessions (demo_world (session_of (at_ms 301000)) Map.empty (at_ms 1000)) demo_session)
     = Some (clock (demo_world (session_of (at_ms 301000)) Map.empty (at_ms 1000)) + 5 * 60 * 1000)
   \<and> outbox (snd (getValidAccessToken (demo_env renewed no_content) demo_cfg demo_session
        (demo_world (session_of (at_ms 301000)) Map.empty (at_ms 1000))))
     = [refresh_request demo_cfg (Some ''R0'')]
   \<and> authSessions (snd (getValidAccessToken (demo_env renewed no_content) demo_cfg demo_session
        (demo_world (session_of (at_ms 301000)) Map.empty (at_ms 1000)))) demo_session
     = Some \<lparr>accessToken = ''A2'', refreshToken = Some ''R0'', expiresAt = at_ms 3601050\<rparr>"
  by (simp add: run_defs demo_defs)

text \<open>
  C4, amended. For a session with a record, \<^verbatim>\<open>getValidAccessToken\<close> refreshes if and only
  if \<^verbatim>\<open>expiresAt - now <= 5 minutes\<close>. In that case exactly one request is sent, the refresh
  request carrying the stored refresh token, and when it succeeds the new access token is
  returned and the record has the new \<^verbatim>\<open>accessToken\<close> and \<^verbatim>\<open>expiresAt\<close>. When
  \<^verbatim>\<open>expiresAt - now > 5 minutes\<close> the stored access token is returned, nothing is sent and the
  world is unchanged.
\<close>

theorem refresh_iff_within_buffer:
  assumes "authSessions w sid = Some s"
  shows "(let out = getValidAccessToken e cfg sid w
          in (expiresAt s - clock w \<le> 5 * 60 * 1000 \<longrightarrow>
                outbox (snd out) = outbox w @ [refresh_request cfg (refreshToken s)]
                \<and> (\<forall>td. fst (refreshAccessToken e cfg (refreshToken s) w) = Inr td \<longrightarrow>
                      fst out = Inr (access_token td)
                      \<and> authSessions (snd out) = (authSessions w)
                           (sid \<mapsto> s\<lparr>accessToken := access_token td,
                                       expiresAt := clock w + int (latency e)
                                                    + expires_in td * 1000\<rparr>)))
             \<and> (5 * 60 * 1000 < expiresAt s - clock w \<longrightarrow> out = (Inr (accessToken s), w)))"
proof (cases "clock w \<ge> expiresAt s - 5 * 60 * 1000")
  case True
  have sent1: "outbox (snd (getValidAccessToken e cfg sid w))
                 = outbox w @ [refresh_request cfg (refreshToken s)]"
  proof (cases "fst (refreshAccessToken e cfg (refreshToken s) w)")
    case (Inl err)
    show ?thesis using token_refresh_failed [OF assms True Inl] by simp
  next
    case (Inr td)
    show ?thesis using token_refreshed [OF assms True Inr] by simp
  qed
  have upd: "fst (getValidAccessToken e cfg sid w) = Inr (access_token td)
      \<and> authSessions (snd (getValidAccessToken e cfg sid w)) = (authSessions w)
           (sid \<mapsto> s\<lparr>accessToken := access_token td,
                       expiresAt := clock w + int (latency e) + expires_in td * 1000\<rparr>)"
    if "fst (refreshAccessToken e cfg (refreshToken s) w) = Inr td" for td
    using token_refreshed [OF assms True that] by simp
  from True sent1 upd show ?thesis unfolding Let_def by auto
next
  case False
  then show ?thesis using token_pass [OF assms False, of e cfg] unfolding Let_def by auto
qed

theorem refresh_iff_within_buffer_witness:
  "getValidAccessToken (demo_env renewed no_content) demo_cfg demo_session
       (demo_world (session_of (at_ms 601000)) Map.empty (at_ms 1000))
     = (Inr ''A0'', demo_world (session_of (at_ms 601000)) Map.empty (at_ms 1000))
   \<and> outbox (snd (getValidAccessToken (demo_env renewed no_content) demo_cfg demo_session
        (demo_world (session_of (at_ms 241000)) Map.empty (at_ms 1000))))
     = [refresh_request demo_cfg (Some ''R0'')]
   \<and> authSessions (snd (getValidAccessToken (demo_env renewed no_content) demo_cfg demo_session
        (demo_world (session_of (at_ms 241000)) Map.empty (at_ms 1000)))) demo_session
     = Some \<lparr>accessToken = ''A2'', refreshToken = Some ''R0'', expiresAt = at_ms 3601050\<rparr>"
proof -
  have far: "authSessions (demo_world (session_of (at_ms 601000)) Map.empty (at_ms 1000)) demo_session
            = Some \<lparr>accessToken = ''A0'', refreshToken = Some ''R0'', expiresAt = at_ms 601000\<rparr>"
    by (simp add: demo_world_def session_of_def)
  have near: "authSessions (demo_world (session_of (at_ms 241000)) Map.empty (at_ms 1000)) demo_session
            = Some \<lparr>accessToken = ''A0'', refreshToken = Some ''R0'', expiresAt = at_ms 241000\<rparr>"
    by (simp add: demo_world_def session_of_def)
  have r: "fst (refreshAccessToken (demo_env renewed no_content) demo_cfg (Some ''R0'')
             (demo_world (session_of (at_ms 241000)) Map.empty (at_ms 1000)))
           = Inr \<lparr>access_token = ''A2'', refresh_token = None, expires_in = 3600\<rparr>"
    by (simp add: refreshAccessToken_def fetch_token_def demo_env_def renewed_def ok_def json_def)
  have a: "getValidAccessToken (demo_env renewed no_content) demo_cfg demo_session
       (demo_world (session_of (at_ms 601000)) Map.empty (at_ms 1000))
     = (Inr ''A0'', demo_world (session_of (at_ms 601000)) Map.empty (at_ms 1000))"
    using refresh_iff_within_buffer [OF far, of "demo_env renewed no_content" demo_cfg]
    by (simp add: Let_def demo_world_def)
  have b: "outbox (snd (getValidAccessToken (demo_env renewed no_content) demo_cfg demo_session
        (demo_world (session_of (at_ms 241000)) Map.empty (at_ms 1000))))
     = [refresh_request demo_cfg (Some ''R0'')]
   \<and> authSessions (snd (getValidAccessToken (demo_env renewed no_content) demo_cfg demo_session
        (demo_world (session_of (at_ms 241000)) Map.empty (at_ms 1000)))) demo_session
     = Some \<lparr>accessToken = ''A2'', refreshToken = Some ''R0'', expiresAt = at_ms 3601050\<rparr>"
    using refresh_iff_within_buffer [OF near, of "demo_env renewed no_content" demo_cfg] r
    by (simp add: Let_def demo_world_def demo_env_def session_of_def)
  show ?thesis using a b by simp
qed

subsection \<open>A failed refresh\<close>

text \<open>
  C5, as stated, fails: after a refused refresh the record stays in the store, so the next
  tool call of the session passes the authentication check, creates no pending authorization
  and sends another refresh request; it fails with the refresh error again instead of
  returning an authorization URL.
\<close>

theorem failed_refresh_keeps_record_counterexample:
  "fst (call_tool (demo_env refused no_content) demo_cfg editing_tools demo_session
         ''commit-editing-transaction'' [''transactionId'' \<mapsto> ''t1'']
         (demo_world (session_of (at_ms 0)) Map.empty (at_ms 1000)))
     = Inl (Error ''Failed to refresh token: Bad Request - invalid_grant'')
   \<and> call_tool (demo_env refused no_content) demo_cfg editing_tools demo_session
         ''commit-editing-transaction'' [''transactionId'' \<mapsto> ''t1'']
         (snd (call_tool (demo_env refused no_content) demo_cfg editing_tools demo_session
            ''commit-editing-transaction'' [''transactionId'' \<mapsto> ''t1'']
            (demo_world (session_of (at_ms 0)) Map.empty (at_ms 1000))))
     = (Inl (Error ''Failed to refresh token: Bad Request - invalid_grant''),
        \<lparr>authSessions = session_of (at_ms 0), pendingAuthStates = Map.empty, clock = at_ms 1100,
         outbox = [refresh_request demo_cfg (Some ''R0''),
                   refresh_request demo_cfg (Some ''R0'')]\<rparr>)"
  by (simp add: run_defs demo_defs editing_tools_def commit_editing_transaction_def
      parse_transactionId_def)

text \<open>
  C5, amended. When the refresh attempt of a tool call fails, the call fails with the refresh
  error, having sent the refresh request only; the session token store and the pending
  authorizations are unchanged. The next tool call of that session therefore does not enter
  the authorization path: it creates no pending authorization and its first request is
  another refresh with the same refresh token.
\<close>

theorem failed_refresh_keeps_record:
  assumes "authSessions w sid = Some s"
    and "clock w \<ge> expiresAt s - 5 * 60 * 1000"
    and "fst (refreshAccessToken e cfg (refreshToken s) w) = Inl err"
    and "tools toolName = Some t" and "prepare t args = Inr c"
    and "tools' toolName' = Some t'" and "prepare t' args' = Inr c'"
  shows "(let w1 = snd (call_tool e cfg tools sid toolName args w);
              w2 = snd (call_tool e' cfg tools' sid toolName' args' w1)
          in fst (call_tool e cfg tools sid toolName args w) = Inl err
             \<and> authSessions w1 = authSessions w
             \<and> pendingAuthStates w1 = pendingAuthStates w
             \<and> outbox w1 = outbox w @ [refresh_request cfg (refreshToken s)]
             \<and> pendingAuthStates w2 = pendingAuthStates w
             \<and> take (Suc (length (outbox w1))) (outbox w2)
                 = outbox w1 @ [refresh_request cfg (refreshToken s)])"
proof -
  let ?w1 = "sent (refresh_request cfg (refreshToken s)) (latency e) w"
  have api: "canvaApiRequest e cfg sid (endpoint c) (call_method c) (call_body c) w
               = (Inl err, ?w1)"
    using token_refresh_failed [OF assms(1-3)] by (simp add: canvaApiRequest_def)
  have first: "call_tool e cfg tools sid toolName args w = (Inl err, ?w1)"
    using call_tool_known [where tools = tools and toolName = toolName and e = e and cfg = cfg,
        OF assms(1,4,5)] api
    by (simp add: prod_eq_iff)
  have s1: "authSessions ?w1 sid = Some s" using assms(1) by simp
  have b1: "clock ?w1 \<ge> expiresAt s - 5 * 60 * 1000" using assms(2) by simp
  have second: "snd (call_tool e' cfg tools' sid toolName' args' ?w1)
      = snd (canvaApiRequest e' cfg sid (endpoint c') (call_method c') (call_body c') ?w1)"
    using call_tool_known(1) [where tools = tools' and toolName = toolName', OF s1 assms(6,7)] .
  show ?thesis
    using first second
      forwarded_after_refresh_check [OF s1 b1, of e' cfg "endpoint c'" "call_method c'"
        "call_body c'"]
    by (simp add: Let_def)
qed

theorem failed_refresh_keeps_record_witness:
  "fst (call_tool (demo_env refused no_content) demo_cfg editing_tools demo_session
         ''commit-editing-transaction'' [''transactionId'' \<mapsto> ''t1'']
         (demo_world (session_of (at_ms 0)) Map.empty (at_ms 1000)))
     = Inl (Error ''Failed to refresh token: Bad Request - invalid_grant'')
   \<and> authSessions (snd (call_tool (demo_env refused no_content) demo_cfg editing_tools demo_session
         ''commit-editing-transaction'' [''transactionId'' \<mapsto> ''t1'']
         (demo_world (session_of (at_ms 0)) Map.empty (at_ms 1000)))) = session_of (at_ms 0)
   \<and> pendingAuthStates (snd (call_tool (demo_env granted no_content) demo_cfg editing_tools
         demo_session ''cancel-editing-transaction'' [''transactionId'' \<mapsto> ''t1'']
         (snd (call_tool (demo_env refused no_content) demo_cfg editing_tools demo_session
            ''commit-editing-transaction'' [''transactionId'' \<mapsto> ''t1'']
            (demo_world (session_of (at_ms 0)) Map.empty (at_ms 1000)))))) = Map.empty"
proof -
  let ?w = "demo_world (session_of (at_ms 0)) Map.empty (at_ms 1000)"
  let ?s = "\<lparr>accessToken = ''A0'', refreshToken = Some ''R0'', expiresAt = at_ms 0\<rparr>"
  let ?args = "[''transactionId'' \<mapsto> ''t1'']"
  have 1: "authSessions ?w demo_session = Some ?s" by (simp add: demo_world_def session_of_def)
  have 2: "clock ?w \<ge> expiresAt ?s - 5 * 60 * 1000" by (simp add: demo_world_def)
  have 3: "fst (refreshAccessToken (demo_env refused no_content) demo_cfg (refreshToken ?s) ?w)
            = Inl (Error ''Failed to refresh token: Bad Request - invalid_grant'')"
    by (simp add: refreshAccessToken_def fetch_token_def demo_env_def refused_def ok_def)
  have 4: "(editing_tools :: string \<rightharpoonup> (string \<rightharpoonup> string, unit) tool)
             ''commit-editing-transaction'' = Some commit_editing_transaction"
    by (simp add: editing_tools_def)
  have 5: "prepare (commit_editing_transaction :: (string \<rightharpoonup> string, unit) tool) ?args
            = Inr \<lparr>endpoint = ''/designs/edit/t1/commit'', call_method = ''POST'',
                   call_body = None\<rparr>"
    by (simp add: commit_editing_transaction_def parse_transactionId_def)
  have 6: "(editing_tools :: string \<rightharpoonup> (string \<rightharpoonup> string, unit) tool)
             ''cancel-editing-transaction'' = Some cancel_editing_transaction"
    by (simp add: editing_tools_def)
  have 7: "prepare (cancel_editing_transaction :: (string \<rightharpoonup> string, unit) tool) ?args
            = Inr \<lparr>endpoint = ''/designs/edit/t1/cancel'', call_method = ''POST'',
                   call_body = None\<rparr>"
    by (simp add: cancel_editing_transaction_def parse_transactionId_def)
  show ?thesis
    using failed_refresh_keeps_record
      [where tools = editing_tools and toolName = "''commit-editing-transaction''"
         and tools' = editing_tools and toolName' = "''cancel-editing-transaction''"
         and e' = "demo_env granted no_content", OF 1 2 3 4 5 6 7]
    by (simp add: Let_def demo_world_def)
qed

subsection \<open>The refresh token across a refresh\<close>

text \<open>
  C6. A refresh whose response carries no \<^verbatim>\<open>refresh_token\<close> changes, in the session token
  store, only the \<^verbatim>\<open>accessToken\<close> and \<^verbatim>\<open>expiresAt\<close> of the session's record: its
  \<^verbatim>\<open>refreshToken\<close> is the one stored before, every other session's record is untouched, and
  so are the pending authorizations.
\<close>

theorem refresh_keeps_refresh_token:
  assumes "authSessions w sid = Some s"
    and "clock w \<ge> expiresAt s - 5 * 60 * 1000"
    and "token_endpoint e (refresh_request cfg (refreshToken s)) = Resolved r"
    and "ok r" and "body_json r = Some td" and "refresh_token td = None"
  shows "(let w' = snd (getValidAccessToken e cfg sid w)
          in authSessions w' = (authSessions w)
               (sid \<mapsto> s\<lparr>accessToken := access_token td,
                           expiresAt := clock w + int (latency e) + expires_in td * 1000\<rparr>)
             \<and> map_option refreshToken (authSessions w' sid) = Some (refreshToken s)
             \<and> pendingAuthStates w' = pendingAuthStates w)"
  using token_refreshed [OF assms(1,2) refresh_succeeds [OF assms(3,4,5)]]
  by (simp add: Let_def)

theorem refresh_keeps_refresh_token_witness:
  "authSessions (snd (getValidAccessToken (demo_env renewed no_content) demo_cfg demo_session
       (demo_world (session_of (at_ms 2000)) Map.empty (at_ms 1000)))) demo_session
     = Some \<lparr>accessToken = ''A2'', refreshToken = Some ''R0'', expiresAt = at_ms 3601050\<rparr>"
proof -
  have 1: "authSessions (demo_world (session_of (at_ms 2000)) Map.empty (at_ms 1000)) demo_session
            = Some \<lparr>accessToken = ''A0'', refreshToken = Some ''R0'', expiresAt = at_ms 2000\<rparr>"
    by (simp add: demo_world_def session_of_def)
  have 2: "clock (demo_world (session_of (at_ms 2000)) Map.empty (at_ms 1000))
            \<ge> expiresAt \<lparr>accessToken = ''A0'', refreshToken = Some ''R0'', expiresAt = at_ms 2000\<rparr>
                - 5 * 60 * 1000"
    by (simp add: demo_world_def)
  have 3: "token_endpoint (demo_env renewed no_content)
             (refresh_request demo_cfg
                (refreshToken \<lparr>accessToken = ''A0'', refreshToken = Some ''R0'', expiresAt = at_ms 2000\<rparr>))
           = Resolved renewed"
    by (simp add: demo_env_def)
  have 4: "ok renewed" by (simp add: ok_def renewed_def)
  have 5: "body_json renewed
            = Some \<lparr>access_token = ''A2'', refresh_token = None, expires_in = 3600\<rparr>"
    by (simp add: renewed_def)
  show ?thesis
    using refresh_keeps_refresh_token [OF 1 2 3 4 5]
    by (simp add: Let_def demo_world_def demo_env_def session_of_def)
qed

subsection \<open>The stored expiry\<close>



subsection \<open>A missing client id\<close>

text \<open>
  C8, as stated, fails: with \<^verbatim>\<open>CANVA_CLIENT_ID\<close> unset the client id is the empty string, and
  the first tool call of an unauthenticated session returns the prompt with a URL whose
  \<^verbatim>\<open>client_id\<close> is empty; no configuration error is raised.
\<close>

theorem missing_client_id_gives_url_counterexample:
  "CANVA_CLIENT_ID (load_config Map.empty) = []
   \<and> fst (call_tool (demo_env granted no_content) (load_config Map.empty) editing_tools demo_session
         ''commit-editing-transaction'' [''transactionId'' \<mapsto> ''t1'']
         (demo_world Map.empty Map.empty (at_ms 1000)))
     = Inr \<lparr>content_text = ''Please authenticate with Canva to use this feature. Visit: ''
              @ ''https://www.canva.com/api/oauth/authorize?client_id=&response_type=code''
              @ ''&redirect_uri=http%3A%2F%2F0.0.0.0%3A8001%2Fauth%2Fcallback&state=101112131415161718191a1b1c1d1e1f''
              @ ''&scope=asset%3Aread+asset%3Awrite+comment%3Aread+comment%3Awrite''
              @ ''+design%3Acontent%3Aread+design%3Acontent%3Awrite+design%3Ameta%3Aread''
              @ ''+folder%3Aread+folder%3Awrite+profile%3Aread''
              @ ''&code_challenge=6oZqdX5MOLq_qBJ8vppAnT4fk6AP8UiP9zX8-Rev_9A''
              @ ''&code_challenge_method=S256'',
            structuredContent = None\<rparr>"
  by code_simp

text \<open>
  C8, amended. Building the authorization URL never rejects. The scope list is the fixed list
  of ten scopes, and when \<^verbatim>\<open>CANVA_CLIENT_ID\<close> is unset or empty a tool call of a session
  without a record returns the prompt with the URL built from the empty client id: its query
  starts with \<^verbatim>\<open>client_id=&response_type=code\<close>.
\<close>

theorem url_builder_never_rejects:
  assumes "process_env ''CANVA_CLIENT_ID'' = None \<or> process_env ''CANVA_CLIENT_ID'' = Some []"
    and "authSessions w sid = None"
  shows "length scopes = 10
         \<and> fst (call_tool e (load_config process_env) tools sid toolName args w)
           = Inr (auth_prompt
               (''https://www.canva.com/api/oauth/authorize?client_id=&response_type=code''
                @ ''&redirect_uri='' @ form_encode (CANVA_REDIRECT_URI (load_config process_env))
                @ ''&state='' @ form_encode (random_hex16 e)
                @ ''&scope=asset%3Aread+asset%3Awrite+comment%3Aread+comment%3Awrite''
                @ ''+design%3Acontent%3Aread+design%3Acontent%3Awrite+design%3Ameta%3Aread''
                @ ''+folder%3Aread+folder%3Awrite+profile%3Aread''
                @ ''&code_challenge='' @ form_encode (sha256_base64url e (random_base64url32 e))
                @ ''&code_challenge_method=S256''))"
proof -
  have cid: "CANVA_CLIENT_ID (load_config process_env) = []"
    using assms(1) by (auto simp: load_config_def env_or_def)
  have sc: "form_encode (join '' '' scopes)
      = ''asset%3Aread+asset%3Awrite+comment%3Aread+comment%3Awrite''
        @ ''+design%3Acontent%3Aread+design%3Acontent%3Awrite+design%3Ameta%3Aread''
        @ ''+folder%3Aread+folder%3Awrite+profile%3Aread''"
    by code_simp
  have names: "form_encode ''client_id'' = ''client_id''"
    "form_encode ''response_type'' = ''response_type''" "form_encode ''code'' = ''code''"
    "form_encode ''redirect_uri'' = ''redirect_uri''" "form_encode ''state'' = ''state''"
    "form_encode ''scope'' = ''scope''" "form_encode ''code_challenge'' = ''code_challenge''"
    "form_encode ''code_challenge_method'' = ''code_challenge_method''"
    "form_encode ''S256'' = ''S256''" "form_encode [] = []"
    by (simp_all add: form_encode_def form_encode_char_def form_safe_def)
  have "generateAuthUrl e (load_config process_env) st v
      = ''https://www.canva.com/api/oauth/authorize?client_id=&response_type=code''
        @ ''&redirect_uri='' @ form_encode (CANVA_REDIRECT_URI (load_config process_env))
        @ ''&state='' @ form_encode st
        @ ''&scope=asset%3Aread+asset%3Awrite+comment%3Aread+comment%3Awrite''
        @ ''+design%3Acontent%3Aread+design%3Acontent%3Awrite+design%3Ameta%3Aread''
        @ ''+folder%3Aread+folder%3Awrite+profile%3Aread''
        @ ''&code_challenge='' @ form_encode (sha256_base64url e v)
        @ ''&code_challenge_method=S256''" for st v
    unfolding generateAuthUrl_def Let_def URLSearchParams_toString_def generateCodeChallenge_def
    by (simp add: cid sc names)
  then show ?thesis
    using assms(2) by (simp add: call_tool_def Let_def generateCodeVerifier_def scopes_def)
qed

theorem url_builder_never_rejects_witness:
  "fst (call_tool (demo_env granted no_content) (load_config Map.empty) editing_tools
       demo_session ''cancel-editing-transaction'' Map.empty (demo_world Map.empty Map.empty (at_ms 1000)))
     = Inr (auth_prompt
         (''https://www.canva.com/api/oauth/authorize?client_id=&response_type=code''
          @ ''&redirect_uri=http%3A%2F%2F0.0.0.0%3A8001%2Fauth%2Fcallback&state=101112131415161718191a1b1c1d1e1f''
          @ ''&scope=asset%3Aread+asset%3Awrite+comment%3Aread+comment%3Awrite''
          @ ''+design%3Acontent%3Aread+design%3Acontent%3Awrite+design%3Ameta%3Aread''
          @ ''+folder%3Aread+folder%3Awrite+profile%3Aread''
          @ ''&code_challenge=6oZqdX5MOLq_qBJ8vppAnT4fk6AP8UiP9zX8-Rev_9A''
              @ ''&code_challenge_method=S256''))"
proof -
  have 1: "(Map.empty :: string \<rightharpoonup> string) ''CANVA_CLIENT_ID'' = None
           \<or> (Map.empty :: string \<rightharpoonup> string) ''CANVA_CLIENT_ID'' = Some []"
    by simp
  have 2: "authSessions (demo_world Map.empty Map.empty (at_ms 1000)) demo_session = None"
    by (simp add: demo_world_def)
  have 3: "form_encode ''http://0.0.0.0:8001/auth/callback''
             = ''http%3A%2F%2F0.0.0.0%3A8001%2Fauth%2Fcallback''"
    "form_encode demo_state = ''101112131415161718191a1b1c1d1e1f''"
    "form_encode demo_challenge = ''6oZqdX5MOLq_qBJ8vppAnT4fk6AP8UiP9zX8-Rev_9A''"
    by code_simp+
  show ?thesis
    using url_builder_never_rejects [OF 1 2, of "demo_env granted no_content" editing_tools
        "''cancel-editing-transaction''" Map.empty] 3
    by (simp add: load_config_def env_or_def demo_env_def)
qed

subsection \<open>The forwarded request\<close>

text \<open>
  C9. When \<^verbatim>\<open>getValidAccessToken\<close> has yielded an access token, which is the access token
  of the session's record at that moment, \<^verbatim>\<open>canvaApiRequest\<close> sends exactly one request, whose
  \<^verbatim>\<open>Authorization\<close> header is \<^verbatim>\<open>Bearer\<close>, a space and that token. A response whose status is
  not 2xx makes the call fail with the error \<^verbatim>\<open>Canva API error:\<close> followed by the status and
  the body; a response with status 204 makes it return \<^verbatim>\<open>null\<close> without error.
\<close>

theorem forwarded_request_bearer_and_status:
  assumes "getValidAccessToken e cfg sid w = (Inr tok, w1)"
  shows "(let rq = api_request tok ep meth bdy;
              out = canvaApiRequest e cfg sid ep meth bdy w
          in map_option accessToken (authSessions w1 sid) = Some tok
             \<and> outbox (snd out) = outbox w1 @ [rq]
             \<and> map_of (headers rq) ''Authorization'' = Some (''Bearer '' @ tok)
             \<and> (\<forall>r. api_endpoint e rq = Resolved r \<and> \<not> (200 \<le> status r \<and> status r \<le> 299)
                    \<longrightarrow> fst out = Inl (Error (''Canva API error: '' @ show_nat (status r)
                                               @ '' '' @ body_text r)))
             \<and> (\<forall>r. api_endpoint e rq = Resolved r \<and> status r = 204
                    \<longrightarrow> fst out = Inr None))"
proof -
  have "map_of (headers (api_request tok ep meth bdy)) ''Authorization''
          = Some (''Bearer '' @ tok)"
    by (simp add: api_request_def)
  then show ?thesis
    using token_token_is_current [OF assms] api_request_sent [OF assms]
      api_request_not_ok [OF assms] api_request_no_content [OF assms]
    unfolding Let_def by simp
qed

theorem forwarded_request_bearer_and_status_witness:
  "canvaApiRequest (demo_env renewed not_found) demo_cfg demo_session ''/designs/d1'' ''GET'' None
       (demo_world (session_of (at_ms 4000000)) Map.empty (at_ms 1000))
     = (Inl (Error ''Canva API error: 404 gone''),
        sent (api_request ''A0'' ''/designs/d1'' ''GET'' None) 50
          (demo_world (session_of (at_ms 4000000)) Map.empty (at_ms 1000)))
   \<and> canvaApiRequest (demo_env renewed no_content) demo_cfg demo_session ''/designs/edit/t1/commit''
       ''POST'' None (demo_world (session_of (at_ms 4000000)) Map.empty (at_ms 1000))
     = (Inr None,
        sent (api_request ''A0'' ''/designs/edit/t1/commit'' ''POST'' None) 50
          (demo_world (session_of (at_ms 4000000)) Map.empty (at_ms 1000)))"
proof -
  let ?w = "demo_world (session_of (at_ms 4000000)) Map.empty (at_ms 1000)"
  have g: "getValidAccessToken e demo_cfg demo_session ?w = (Inr ''A0'', ?w)" for e :: "unit env"
    by (simp add: getValidAccessToken_def demo_world_def session_of_def)
  have n: "show_nat 404 = ''404''" by code_simp
  have a: "fst (canvaApiRequest (demo_env renewed not_found) demo_cfg demo_session ''/designs/d1''
             ''GET'' None ?w) = Inl (Error ''Canva API error: 404 gone'')"
    using forwarded_request_bearer_and_status [OF g [of "demo_env renewed not_found"],
        where ep = "''/designs/d1''" and meth = "''GET''" and bdy = None] n
    by (simp add: Let_def demo_env_def not_found_def)
  have a': "snd (canvaApiRequest (demo_env renewed not_found) demo_cfg demo_session ''/designs/d1''
             ''GET'' None ?w) = sent (api_request ''A0'' ''/designs/d1'' ''GET'' None) 50 ?w"
    using api_request_sent [OF g [of "demo_env renewed not_found"]] by (simp add: demo_env_def)
  have b: "fst (canvaApiRequest (demo_env renewed no_content) demo_cfg demo_session
             ''/designs/edit/t1/commit'' ''POST'' None ?w) = Inr None"
    using forwarded_request_bearer_and_status [OF g [of "demo_env renewed no_content"],
        where ep = "''/designs/edit/t1/commit''" and meth = "''POST''" and bdy = None]
    by (simp add: Let_def demo_env_def no_content_def)
  have b': "snd (canvaApiRequest (demo_env renewed no_content) demo_cfg demo_session
             ''/designs/edit/t1/commit'' ''POST'' None ?w)
            = sent (api_request ''A0'' ''/designs/edit/t1/commit'' ''POST'' None) 50 ?w"
    using api_request_sent [OF g [of "demo_env renewed no_content"]] by (simp add: demo_env_def)
  show ?thesis using a a' b b' by (simp add: prod_eq_iff)
qed

subsection \<open>A failed exchange\<close>

text \<open>
  C10, as stated, fails on an entry older than ten minutes: the lookup finds it, the sweep
  that follows deletes it, and when the exchange is then refused the entry does not remain.
\<close>

theorem expired_state_purged_on_failure_counterexample:
  "pendingAuthStates (demo_world Map.empty pending_one (at_ms 600001)) demo_state
       = Some demo_pending
   \<and> fst (handleAuthCallback (demo_env refused no_content) demo_cfg callback_one
         (demo_world Map.empty pending_one (at_ms 600001)))
     = Reply 500 (AuthenticationErrorPage
         (Error ''Failed to exchange code for token: Bad Request - invalid_grant''))
   \<and> pendingAuthStates (snd (handleAuthCallback (demo_env refused no_content) demo_cfg
         callback_one (demo_world Map.empty pending_one (at_ms 600001)))) demo_state = None"
  by (simp add: run_defs demo_defs)

text \<open>
  C10, amended. When the callback finds the entry of its state, the entry is not older than
  ten minutes, and the token exchange fails (the request is rejected, the status is not 2xx,
  or the body is not JSON), the reply is 500 with the page of the error caught, the session token
  store is unchanged and the entry for that state is still in the registry.
\<close>

theorem failed_exchange_changes_nothing:
  assumes "truthy (q_error q) = None" and "truthy (q_code q) = Some code"
    and "truthy (q_state q) = Some st"
    and "pendingAuthStates w st = Some p"
    and "fst (exchangeCodeForToken e cfg code (codeVerifier p) w) = Inl err"
    and "clock w - createdAt p \<le> 10 * 60 * 1000"
  shows "fst (handleAuthCallback e cfg q w) = Reply 500 (AuthenticationErrorPage err)
         \<and> authSessions (snd (handleAuthCallback e cfg q w)) = authSessions w
         \<and> pendingAuthStates (snd (handleAuthCallback e cfg q w)) st = Some p"
  using callback_exchange_failed [OF assms(1-5)] assms(4,6) by (simp add: cleanup_def)

theorem failed_exchange_changes_nothing_witness:
  "fst (handleAuthCallback (demo_env refused no_content) demo_cfg callback_one
         (demo_world Map.empty pending_one (at_ms 600000)))
     = Reply 500 (AuthenticationErrorPage
         (Error ''Failed to exchange code for token: Bad Request - invalid_grant''))
   \<and> authSessions (snd (handleAuthCallback (demo_env refused no_content) demo_cfg callback_one
         (demo_world Map.empty pending_one (at_ms 600000)))) = Map.empty
   \<and> pendingAuthStates (snd (handleAuthCallback (demo_env refused no_content) demo_cfg
         callback_one (demo_world Map.empty pending_one (at_ms 600000)))) demo_state
     = Some demo_pending"
proof -
  have 1: "truthy (q_error callback_one) = None" "truthy (q_code callback_one) = Some ''c''"
    "truthy (q_state callback_one) = Some demo_state"
    by (simp_all add: callback_one_def truthy_def demo_state_def)
  have 2: "pendingAuthStates (demo_world Map.empty pending_one (at_ms 600000)) demo_state
      = Some demo_pending"
    by (simp add: demo_world_def demo_pending_def pending_one_def)
  have 3: "fst (exchangeCodeForToken (demo_env refused no_content) demo_cfg ''c''
             (codeVerifier demo_pending)
             (demo_world Map.empty pending_one (at_ms 600000)))
           = Inl (Error ''Failed to exchange code for token: Bad Request - invalid_grant'')"
    by (simp add: exchangeCodeForToken_def fetch_token_def demo_env_def refused_def ok_def)
  have 4: "clock (demo_world Map.empty pending_one (at_ms 600000))
             - createdAt demo_pending
           \<le> 10 * 60 * 1000"
    by (simp add: demo_world_def)
  show ?thesis
    using failed_exchange_changes_nothing [OF 1 2 3 4]
    by (simp add: demo_world_def)
qed

end
